theory Spec2Isabelle
  imports Main "HOL-Library.Sublist" "HOL-Library.AList"
begin

section \<open>TBflix: the data-fetching core of \<open>src/App.jsx\<close>\<close>

text \<open>
  The application is one React component. Its logic is two asynchronous functions,
  \<open>fetchWithRetry\<close> and \<open>fetchMovies\<close>; everything else is markup. The embedding
  follows the source line by line:
  \<^item> a JavaScript string is a \<open>string\<close> (the bytes of its UTF-8 encoding);
  \<^item> a thrown error is a value \<open>Error msg\<close>, a promise that rejects is \<open>Inl\<close>, one
    that resolves is \<open>Inr\<close>;
  \<^item> the network and the timer are effects: every \<open>fetch\<close> call and every
    \<open>setTimeout\<close> wait is appended to a trace, and the answer of the network to
    a call may depend on the whole trace before it;
  \<^item> the React state of \<open>App\<close> is a record, and a state setter is a record update;
  \<^item> each \<open>for\<close> loop is a recursive function on its counter.
  \<open>fetchMovies\<close> as a function is one run with no other run writing the state in
  between. Runs overlap in the page (the effect of lines 92 to 94 starts one without
  waiting for the last): a run is also given as its two synchronous blocks,
  \<open>startRun\<close> before the first \<open>await\<close> and \<open>finishRun\<close> from there on, and
  \<open>reachable\<close> interleaves the blocks of the runs in flight.
\<close>

subsection \<open>Strings\<close>

text \<open>Decimal rendering of a whole number in a template literal (\<open>`${page}`\<close>,
  \<open>`${response.status}`\<close>): the numbers rendered are page numbers and HTTP statuses.\<close>

definition digit :: "nat \<Rightarrow> char" where
  "digit d = ''0123456789'' ! d"

fun showNat :: "nat \<Rightarrow> string" where
  "showNat n = (if n < 10 then [digit n] else showNat (n div 10) @ [digit (n mod 10)])"

declare showNat.simps [simp del]

definition showInt :: "int \<Rightarrow> string" where
  "showInt i = (if i < 0 then CHR ''-'' # showNat (nat (- i)) else showNat (nat i))"

text \<open>\<open>String.prototype.includes\<close>: the argument occurs as a contiguous substring
  (\<open>includes\<close> is a reserved word of the theory language, hence the prefix).\<close>

definition str_includes :: "string \<Rightarrow> string \<Rightarrow> bool" where
  "str_includes s sub = sublist sub s"

text \<open>
  \<open>encodeURIComponent\<close>: letters, digits and \<open>- _ . ! ~ * ' ( )\<close> stay, every other
  byte of the UTF-8 encoding becomes \<open>%XX\<close> in upper-case hexadecimal.
\<close>

definition unreserved :: "char \<Rightarrow> bool" where
  "unreserved c =
     (let n = of_char c :: nat in
        (65 \<le> n \<and> n \<le> 90) \<or> (97 \<le> n \<and> n \<le> 122) \<or> (48 \<le> n \<and> n \<le> 57)
        \<or> c \<in> set ''-_.!~*'()'')"

definition hexDigit :: "nat \<Rightarrow> char" where
  "hexDigit d = ''0123456789ABCDEF'' ! d"

definition percentEncode :: "char \<Rightarrow> string" where
  "percentEncode c =
     (let n = of_char c :: nat in [CHR ''%'', hexDigit (n div 16), hexDigit (n mod 16)])"

definition encodeURIComponent :: "string \<Rightarrow> string" where
  "encodeURIComponent s = concat (map (\<lambda>c. if unreserved c then [c] else percentEncode c) s)"

subsection \<open>Errors, requests and the network\<close>

datatype js_error = Error (message: string)

text \<open>The second argument of \<open>fetch\<close>; \<open>httpMethod\<close> is its field \<open>method\<close>, a word
  the theory language reserves.\<close>

record options =
  httpMethod :: string
  headers :: "(string \<times> string) list"

text \<open>What \<open>fetch\<close> resolves to: \<open>response.ok\<close>, \<open>response.status\<close>, and the outcome
  of \<open>response.json()\<close>, which rejects when the body is not JSON.\<close>

record 'a response =
  ok :: bool
  status :: nat
  json :: "js_error + 'a"

datatype event =
    Request string options
  | Delay int
  | ConsoleError string js_error

type_synonym trace = "event list"

text \<open>The network: given all that happened so far and the call, \<open>fetch\<close> either
  rejects (\<open>Inl\<close>) or resolves to a response.\<close>

type_synonym 'a network = "trace \<Rightarrow> string \<Rightarrow> options \<Rightarrow> js_error + 'a response"

text \<open>The body of the \<open>try\<close> block of \<open>fetchWithRetry\<close> (lines 27 to 31): one attempt.\<close>

definition attempt :: "js_error + 'a response \<Rightarrow> js_error + 'a" where
  "attempt outcome =
     (case outcome of
        Inl e \<Rightarrow> Inl e
      | Inr response \<Rightarrow>
          if \<not> ok response
          then Inl (Error (''HTTP error! status: '' @ showNat (status response)))
          else json response)"

text \<open>
  \<open>fetchWithRetry\<close> (lines 24 to 37). The loop counter \<open>i\<close> is an argument; the
  function returns the settled promise and the trace. \<open>Inr None\<close> is the promise
  resolved with \<open>undefined\<close>, which is what falling out of the loop gives.
\<close>

function fetchWithRetryLoop ::
  "'a network \<Rightarrow> string \<Rightarrow> options \<Rightarrow> int \<Rightarrow> int \<Rightarrow> int \<Rightarrow> trace
     \<Rightarrow> (js_error + 'a option) \<times> trace" where
  "fetchWithRetryLoop net url opts retries delay i tr =
     (if i < retries then
        (case attempt (net tr url opts) of
           Inr v \<Rightarrow> (Inr (Some v), tr @ [Request url opts])
         | Inl e \<Rightarrow>
             if i = retries - 1 then (Inl e, tr @ [Request url opts])
             else fetchWithRetryLoop net url opts retries delay (i + 1)
                    (tr @ [Request url opts, Delay delay]))
      else (Inr None, tr))"
  by pat_completeness auto
termination
  by (relation "measure (\<lambda>(net, url, opts, retries, delay, i, tr). nat (retries - i))") auto

declare fetchWithRetryLoop.simps [simp del]

definition fetchWithRetry ::
  "'a network \<Rightarrow> string \<Rightarrow> options \<Rightarrow> int \<Rightarrow> int \<Rightarrow> trace
     \<Rightarrow> (js_error + 'a option) \<times> trace" where
  "fetchWithRetry net url opts retries delay tr =
     fetchWithRetryLoop net url opts retries delay 0 tr"

subsection \<open>Movie records and the application state\<close>

text \<open>
  A field of a record of the provider is \<open>null\<close>, a boolean, a number or a string; a
  field that is absent reads as \<open>undefined\<close>, here \<open>None\<close>. A number is kept as the
  text JavaScript prints for it (\<open>String(n)\<close>, so \<open>603\<close>, \<open>7.8\<close>, \<open>1e+21\<close>): the text
  determines the number, but for \<open>0\<close> and \<open>-0\<close>, which both print as \<open>0\<close>. A record
  is the list of its fields in their order, as a JavaScript object keeps them.
\<close>

datatype jsval = JNull | JBool bool | JNum string | JStr string

type_synonym movie = "(string \<times> jsval) list"

text \<open>The truth value of \<open>movie.poster_path\<close> in a condition (a number is false when
  it is \<open>0\<close>, \<open>-0\<close> or \<open>NaN\<close>), and its rendering in a template literal.\<close>

fun truthy :: "jsval option \<Rightarrow> bool" where
  "truthy None = False"
| "truthy (Some JNull) = False"
| "truthy (Some (JBool b)) = b"
| "truthy (Some (JNum n)) = (n \<noteq> ''0'' \<and> n \<noteq> ''NaN'')"
| "truthy (Some (JStr s)) = (s \<noteq> [])"

fun toString :: "jsval option \<Rightarrow> string" where
  "toString None = ''undefined''"
| "toString (Some JNull) = ''null''"
| "toString (Some (JBool b)) = (if b then ''true'' else ''false'')"
| "toString (Some (JNum n)) = n"
| "toString (Some (JStr s)) = s"

text \<open>Line 70: the value given to \<open>poster_path\<close>, from the raw value of the field.\<close>

definition posterPath :: "jsval option \<Rightarrow> string" where
  "posterPath p =
     (if truthy p then ''https://image.tmdb.org/t/p/w500'' @ toString p else ''./No-Poster.png'')"

text \<open>Lines 68 to 71: \<open>movie => ({...movie, poster_path: ...})\<close>. The spread copies the
  fields in their order; the field \<open>poster_path\<close> keeps its place when the record has
  one and comes last otherwise, which is \<open>AList.update\<close>.\<close>

definition transformMovie :: "movie \<Rightarrow> movie" where
  "transformMovie movie =
     AList.update ''poster_path'' (JStr (posterPath (map_of movie ''poster_path''))) movie"

text \<open>The parsed body of a response. \<open>results\<close> is \<open>None\<close> when the field is absent or
  \<open>null\<close>, the two cases in which \<open>!data.results\<close> holds for a body of the shape
  \<open>{ results: [...] }\<close>; the other fields of the body are the record's extension.\<close>

record payload =
  results :: "movie list option"

record app_state =
  searchTerm :: string
  movieList :: "movie list"
  errorMessage :: string
  isLoading :: bool
  selectedMovie :: "movie option"

text \<open>The \<open>useState\<close> initial values (lines 18 to 22).\<close>

definition initialState :: app_state where
  "initialState =
     \<lparr>searchTerm = [], movieList = [], errorMessage = [], isLoading = False,
      selectedMovie = None\<rparr>"

subsection \<open>Constants of the module\<close>

definition API_BASE_URL :: string where
  "API_BASE_URL = ''https://api.themoviedb.org/3''"

text \<open>\<open>API_KEY\<close> is read from the build environment: \<open>None\<close> is \<open>undefined\<close>. It is
  fixed for the life of the page, so it is a parameter of everything below.\<close>

definition keyMissing :: "string option \<Rightarrow> bool" where
  "keyMissing key = (case key of None \<Rightarrow> True | Some k \<Rightarrow> k = [])"

definition API_OPTIONS :: "string option \<Rightarrow> options" where
  "API_OPTIONS key =
     \<lparr>httpMethod = ''GET'',
      headers = [(''accept'', ''application/json''),
                 (''Authorization'',
                  ''Bearer '' @ (case key of None \<Rightarrow> ''undefined'' | Some k \<Rightarrow> k))]\<rparr>"

subsection \<open>\<open>fetchMovies\<close>\<close>

definition pagesToFetch :: "string \<Rightarrow> int" where
  "pagesToFetch query = (if query \<noteq> [] then 1 else 2)"

definition endpoint :: "string \<Rightarrow> int \<Rightarrow> string" where
  "endpoint query page =
     (if query \<noteq> []
      then API_BASE_URL @ ''/search/movie?query='' @ encodeURIComponent query
             @ ''&language=en-US&page='' @ showInt page
      else API_BASE_URL @ ''/discover/movie?sort_by=popularity.desc&language=en-US&page=''
             @ showInt page)"

text \<open>How the \<open>for\<close> loop of lines 52 to 72 ends: it runs out or breaks with the
  accumulated \<open>allResults\<close>, it executes \<open>return\<close>, or an error is thrown.\<close>

datatype completion = Normal "movie list" | Return | Throw js_error

text \<open>\<open>data.results\<close> on \<open>undefined\<close> throws a \<open>TypeError\<close>; the text is the one of V8.\<close>

definition undefinedData :: js_error where
  "undefinedData = Error ''Cannot read properties of undefined (reading 'results')''"

definition noResults :: "payload \<Rightarrow> bool" where
  "noResults data = (case results data of None \<Rightarrow> True | Some rs \<Rightarrow> length rs = 0)"

function pageLoop ::
  "payload network \<Rightarrow> string option \<Rightarrow> string \<Rightarrow> int \<Rightarrow> movie list \<Rightarrow> app_state \<times> trace
     \<Rightarrow> completion \<times> app_state \<times> trace" where
  "pageLoop net key query page allResults (s, tr) =
     (if page \<le> pagesToFetch query then
        (case fetchWithRetry net (endpoint query page) (API_OPTIONS key) 3 1000 tr of
           (Inl e, tr') \<Rightarrow> (Throw e, s, tr')
         | (Inr None, tr') \<Rightarrow> (Throw undefinedData, s, tr')
         | (Inr (Some data), tr') \<Rightarrow>
             if noResults data then
               (if page = 1
                then (Return,
                      s\<lparr>errorMessage :=
                           (if query \<noteq> [] then ''No movies found for your search''
                            else ''No movies available''),
                        movieList := []\<rparr>,
                      tr')
                else (Normal allResults, s, tr'))
             else pageLoop net key query (page + 1)
                    (allResults @ map transformMovie (the (results data))) (s, tr'))
      else (Normal allResults, s, tr))"
  by pat_completeness auto
termination
  by (relation "measure (\<lambda>(net, key, query, page, allResults, st). nat (3 - page))")
     (auto simp: pagesToFetch_def split: if_splits)

declare pageLoop.simps [simp del]

text \<open>Lines 77 to 83: the message for the user, from the error that was caught.\<close>

definition errorMsg :: "js_error \<Rightarrow> string" where
  "errorMsg error =
     (if str_includes (message error) ''401''
      then ''Invalid API key. Please check your TMDB API configuration.''
      else if str_includes (message error) ''429''
      then ''Rate limit exceeded. Please try again later.''
      else ''Error fetching movies. Please try again later.'')"

text \<open>\<open>fetchMovies\<close> (lines 39 to 90), from the state and the trace before the call to
  the state and the trace when its promise has settled.\<close>

definition fetchMovies ::
  "payload network \<Rightarrow> string option \<Rightarrow> string \<Rightarrow> app_state \<times> trace \<Rightarrow> app_state \<times> trace" where
  "fetchMovies net key query st =
     (case st of (s, tr) \<Rightarrow>
        if keyMissing key
        then (s\<lparr>errorMessage := ''API key is missing. Please check your configuration.'',
                isLoading := False\<rparr>, tr)
        else
          (case pageLoop net key query 1 [] (s\<lparr>isLoading := True, errorMessage := []\<rparr>, tr) of
             (Normal allResults, s', tr') \<Rightarrow>
               (s'\<lparr>movieList := allResults, isLoading := False\<rparr>, tr')
           | (Return, s', tr') \<Rightarrow> (s'\<lparr>isLoading := False\<rparr>, tr')
           | (Throw error, s', tr') \<Rightarrow>
               (s'\<lparr>errorMessage := errorMsg error, movieList := [], isLoading := False\<rparr>,
                tr' @ [ConsoleError ''Error fetching movies:'' error])))"

text \<open>The other handlers of the component (lines 96 to 102 and the search box).\<close>

definition handleMovieClick :: "movie \<Rightarrow> app_state \<Rightarrow> app_state" where
  "handleMovieClick movie s = s\<lparr>selectedMovie := Some movie\<rparr>"

definition closeModal :: "app_state \<Rightarrow> app_state" where
  "closeModal s = s\<lparr>selectedMovie := None\<rparr>"

definition setSearchTerm :: "string \<Rightarrow> app_state \<Rightarrow> app_state" where
  "setSearchTerm v s = s\<lparr>searchTerm := v\<rparr>"

text \<open>
  A run of \<open>fetchMovies\<close> writes the state in two synchronous blocks and nowhere else:
  \<^item> \<open>startRun\<close>, lines 40 to 47, up to the first \<open>await\<close>; without a key the run
    ends there;
  \<^item> \<open>finishRun\<close>, the rest: the loop reads no state and writes none before its last
    \<open>await\<close> has settled, so what it writes (lines 61 and 62, 74, 85 and 86, 88) it
    writes to the state of that later moment.
\<close>

definition startRun :: "string option \<Rightarrow> app_state \<Rightarrow> app_state" where
  "startRun key s =
     (if keyMissing key
      then s\<lparr>errorMessage := ''API key is missing. Please check your configuration.'',
             isLoading := False\<rparr>
      else s\<lparr>isLoading := True, errorMessage := []\<rparr>)"

definition finishRun ::
  "payload network \<Rightarrow> string option \<Rightarrow> string \<Rightarrow> app_state \<times> trace \<Rightarrow> app_state \<times> trace" where
  "finishRun net key query st =
     (case st of (s, tr) \<Rightarrow>
        (case pageLoop net key query 1 [] (s, tr) of
           (Normal allResults, s', tr') \<Rightarrow>
             (s'\<lparr>movieList := allResults, isLoading := False\<rparr>, tr')
         | (Return, s', tr') \<Rightarrow> (s'\<lparr>isLoading := False\<rparr>, tr')
         | (Throw error, s', tr') \<Rightarrow>
             (s'\<lparr>errorMessage := errorMsg error, movieList := [], isLoading := False\<rparr>,
              tr' @ [ConsoleError ''Error fetching movies:'' error])))"

text \<open>
  The states the page can be in, each with the queries of the runs in flight. The
  page starts in \<open>initialState\<close>. The effect of lines 92 to 94 starts a run for the
  current search term, whatever is in flight; a run in flight finishes at any later
  moment, against any network; the handlers change the state in between.
\<close>

inductive reachable :: "string option \<Rightarrow> app_state \<times> string list \<Rightarrow> bool"
  for key :: "string option" where
  reach_init: "reachable key (initialState, [])"
| reach_start: "reachable key (s, inFlight) \<Longrightarrow>
     reachable key (startRun key s,
                    if keyMissing key then inFlight else searchTerm s # inFlight)"
| reach_finish: "reachable key (s, inFlight) \<Longrightarrow> query \<in> set inFlight \<Longrightarrow>
     reachable key (fst (finishRun net key query (s, tr)), remove1 query inFlight)"
| reach_search: "reachable key (s, inFlight) \<Longrightarrow> reachable key (setSearchTerm v s, inFlight)"
| reach_click: "reachable key (s, inFlight) \<Longrightarrow>
     reachable key (handleMovieClick movie s, inFlight)"
| reach_close: "reachable key (s, inFlight) \<Longrightarrow> reachable key (closeModal s, inFlight)"

text \<open>The URLs of the \<open>fetch\<close> calls of a trace, in order.\<close>

fun requests :: "trace \<Rightarrow> string list" where
  "requests [] = []"
| "requests (Request url opts # tr) = url # requests tr"
| "requests (e # tr) = requests tr"

fun delays :: "trace \<Rightarrow> int list" where
  "delays [] = []"
| "delays (Delay d # tr) = d # delays tr"
| "delays (e # tr) = delays tr"

text \<open>Line 57: the call for one page, with the defaults \<open>retries = 3\<close> and
  \<open>delay = 1000\<close>.\<close>

abbreviation fetchPage ::
  "payload network \<Rightarrow> string option \<Rightarrow> string \<Rightarrow> int \<Rightarrow> trace
     \<Rightarrow> (js_error + payload option) \<times> trace" where
  "fetchPage net key query page tr \<equiv>
     fetchWithRetry net (endpoint query page) (API_OPTIONS key) 3 1000 tr"

subsection \<open>Sample records and networks\<close>

text \<open>Concrete inputs on which the theorems below are run.\<close>

definition sampleMovie :: movie where
  "sampleMovie =
     [(''id'', JNum ''603''), (''poster_path'', JStr ''/abc.jpg''), (''title'', JStr ''The Matrix'')]"

text \<open>A record whose poster is \<open>null\<close>, and one that has no \<open>poster_path\<close> field.\<close>

definition noPosterMovie :: movie where
  "noPosterMovie =
     [(''id'', JNum ''604''), (''poster_path'', JNull), (''title'', JStr ''Untitled'')]"

definition bareMovie :: movie where
  "bareMovie = [(''id'', JNum ''605''), (''title'', JStr ''Bare'')]"

definition respond :: "movie list option \<Rightarrow> js_error + payload response" where
  "respond rs = Inr \<lparr>ok = True, status = 200, json = Inr \<lparr>results = rs\<rparr>\<rparr>"

definition httpStatus :: "nat \<Rightarrow> js_error + payload response" where
  "httpStatus n =
     Inr \<lparr>ok = False, status = n, json = Inl (Error ''Unexpected end of JSON input'')\<rparr>"

text \<open>A network whose first \<open>k\<close> calls are rejected, each with its own message, and
  which answers with one record from then on.\<close>

definition failingFirst :: "nat \<Rightarrow> payload network" where
  "failingFirst k tr url opts =
     (if length (requests tr) < k
      then Inl (Error (''Failed to fetch, attempt '' @ showNat (Suc (length (requests tr)))))
      else respond (Some [sampleMovie]))"

text \<open>A network that answers every call with the HTTP status \<open>n\<close>.\<close>

definition statusNet :: "nat \<Rightarrow> payload network" where
  "statusNet n tr url opts = httpStatus n"

text \<open>A network that answers the first call with the results \<open>p1\<close> and every later
  call with \<open>p2\<close>.\<close>

definition pagesNet :: "movie list option \<Rightarrow> movie list option \<Rightarrow> payload network" where
  "pagesNet p1 p2 tr url opts = (if requests tr = [] then respond p1 else respond p2)"

text \<open>A network that answers the first call with one record and every later call
  with the HTTP status \<open>n\<close>.\<close>

definition thenStatusNet :: "nat \<Rightarrow> payload network" where
  "thenStatusNet n tr url opts =
     (if requests tr = [] then respond (Some [sampleMovie]) else httpStatus n)"

text \<open>A network whose answers have status 200 and a body that is not JSON, so that
  \<open>response.json()\<close> rejects; the message is the one Firefox gives, with the line and
  the column of the offending character.\<close>

definition badJsonNet :: "payload network" where
  "badJsonNet tr url opts =
     Inr \<lparr>ok = True, status = 200,
          json = Inl (Error
            ''JSON.parse: unexpected character at line 401 column 429 of the JSON data'')\<rparr>"

text \<open>
  Two runs that overlap, against a network that answers the first call with an empty
  page and every later call with one record. The page is mounted and the run for the
  home page starts; the user types ``batman'' and the run for the search starts;
  the search is answered first (\<open>overlapSearchDone\<close>), then the home page
  (\<open>overlapExample\<close>).
\<close>

definition overlapStarted :: app_state where
  "overlapStarted =
     startRun (Some ''k'') (setSearchTerm ''batman'' (startRun (Some ''k'') initialState))"

definition overlapSearchDone :: app_state where
  "overlapSearchDone =
     fst (finishRun (pagesNet (Some []) (Some [sampleMovie])) (Some ''k'') ''batman''
            (overlapStarted, []))"

definition overlapExample :: app_state where
  "overlapExample =
     fst (finishRun (pagesNet (Some []) (Some [sampleMovie])) (Some ''k'') []
            (overlapSearchDone, [Request (endpoint ''batman'' 1) (API_OPTIONS (Some ''k''))]))"

section \<open>Properties\<close>

subsection \<open>Auxiliary facts\<close>

lemmas run_defs = fetchMovies_def pageLoop.simps pagesToFetch_def fetchWithRetry_def
  fetchWithRetryLoop.simps attempt_def keyMissing_def noResults_def respond_def httpStatus_def
  failingFirst_def pagesNet_def showNat.simps digit_def
  initialState_def str_includes_def sublist_code(3) errorMsg_def

lemma requests_append: "requests (a @ b) = requests a @ requests b"
  by (induction a rule: requests.induct) simp_all

lemma noResults_iff: "noResults d \<longleftrightarrow> results d = None \<or> results d = Some []"
  by (simp add: noResults_def split: option.splits)

text \<open>With three retries the call makes one, two or three attempts, and so never
  resolves with \<open>undefined\<close>.\<close>

lemma fetchWithRetry_3_trace:
  "fetchWithRetry net url opts 3 d tr = (res, tr') \<Longrightarrow>
     tr' = tr @ [Request url opts]
   \<or> tr' = tr @ [Request url opts, Delay d, Request url opts]
   \<or> tr' = tr @ [Request url opts, Delay d, Request url opts, Delay d, Request url opts]"
  by (auto simp add: fetchWithRetry_def fetchWithRetryLoop.simps split: sum.splits)

lemma fetchWithRetry_3_defined:
  "fetchWithRetry net url opts 3 delay tr \<noteq> (Inr None, tr')"
  by (simp add: fetchWithRetry_def fetchWithRetryLoop.simps split: sum.splits)

lemma fetchWithRetry_3_requests:
  assumes "fetchWithRetry net url opts 3 d tr = (res, tr')"
  shows "\<exists>n. 0 < n \<and> n \<le> 3 \<and> requests tr' = requests tr @ replicate n url"
proof -
  from fetchWithRetry_3_trace [OF assms]
  consider "tr' = tr @ [Request url opts]"
    | "tr' = tr @ [Request url opts, Delay d, Request url opts]"
    | "tr' = tr @ [Request url opts, Delay d, Request url opts, Delay d, Request url opts]"
    by blast
  then show ?thesis
  proof cases
    case 1
    then have "0 < (1::nat) \<and> (1::nat) \<le> 3 \<and> requests tr' = requests tr @ replicate 1 url"
      by (simp add: requests_append)
    then show ?thesis by blast
  next
    case 2
    then have "0 < (2::nat) \<and> (2::nat) \<le> 3 \<and> requests tr' = requests tr @ replicate 2 url"
      by (simp add: requests_append numeral_2_eq_2)
    then show ?thesis by blast
  next
    case 3
    then have "0 < (3::nat) \<and> (3::nat) \<le> 3 \<and> requests tr' = requests tr @ replicate 3 url"
      by (simp add: requests_append numeral_3_eq_3)
    then show ?thesis by blast
  qed
qed

lemma endpoint_pages_differ: "endpoint query 1 \<noteq> endpoint query 2"
  by (simp add: endpoint_def showInt_def showNat.simps digit_def)

text \<open>The loop touches the state only where it executes \<open>return\<close>.\<close>

lemma pageLoop_state:
  "pageLoop net key query page allResults (s, tr) = (c, s', tr') \<Longrightarrow>
     (c = Return \<longrightarrow> errorMessage s' \<noteq> [] \<and> movieList s' = []) \<and> (c \<noteq> Return \<longrightarrow> s' = s)"
proof (induction net key query page allResults "(s, tr)" arbitrary: tr rule: pageLoop.induct)
  case (1 net key query page allResults tr)
  note unfold = pageLoop.simps [of net key query page]
  show ?case
  proof (cases "page \<le> pagesToFetch query")
    case False
    with "1.prems" show ?thesis by (auto simp add: unfold)
  next
    case True
    obtain r tr1 where
      f: "fetchWithRetry net (endpoint query page) (API_OPTIONS key) 3 1000 tr = (r, tr1)"
      by (cases "fetchWithRetry net (endpoint query page) (API_OPTIONS key) 3 1000 tr")
    show ?thesis
    proof (cases r)
      case (Inl e)
      with True f "1.prems" show ?thesis by (auto simp add: unfold)
    next
      case (Inr od)
      show ?thesis
      proof (cases od)
        case None
        with Inr True f "1.prems" show ?thesis by (auto simp add: unfold)
      next
        case (Some d)
        show ?thesis
        proof (cases "noResults d")
          case nr: True
          with Some Inr True f "1.prems" show ?thesis
            by (auto simp add: unfold split: if_splits)
        next
          case nr: False
          with Some Inr True f "1.prems"
          have "pageLoop net key query (page + 1)
                  (allResults @ map transformMovie (the (results d))) (s, tr1) = (c, s', tr')"
            by (simp add: unfold)
          from "1.hyps" [OF True f [symmetric] _ _ nr this] Inr Some
          show ?thesis by simp
        qed
      qed
    qed
  qed
qed

text \<open>The loop written out: one page for a search, two for the home page.\<close>

lemma pageLoop_search:
  "query \<noteq> [] \<Longrightarrow>
   pageLoop net key query 1 [] (s, tr) =
     (case fetchPage net key query 1 tr of
        (Inl e, tr') \<Rightarrow> (Throw e, s, tr')
      | (Inr None, tr') \<Rightarrow> (Throw undefinedData, s, tr')
      | (Inr (Some data), tr') \<Rightarrow>
          if noResults data
          then (Return,
                s\<lparr>errorMessage := ''No movies found for your search'', movieList := []\<rparr>, tr')
          else (Normal (map transformMovie (the (results data))), s, tr'))"
  by (simp add: pageLoop.simps pagesToFetch_def split: prod.splits sum.splits option.splits)

lemma pageLoop_browse:
  "pageLoop net key [] 1 [] (s, tr) =
     (case fetchPage net key [] 1 tr of
        (Inl e, tr') \<Rightarrow> (Throw e, s, tr')
      | (Inr None, tr') \<Rightarrow> (Throw undefinedData, s, tr')
      | (Inr (Some data), tr') \<Rightarrow>
          if noResults data
          then (Return, s\<lparr>errorMessage := ''No movies available'', movieList := []\<rparr>, tr')
          else
            (case fetchPage net key [] 2 tr' of
               (Inl e, tr'') \<Rightarrow> (Throw e, s, tr'')
             | (Inr None, tr'') \<Rightarrow> (Throw undefinedData, s, tr'')
             | (Inr (Some data'), tr'') \<Rightarrow>
                 if noResults data'
                 then (Normal (map transformMovie (the (results data))), s, tr'')
                 else (Normal (map transformMovie (the (results data))
                                 @ map transformMovie (the (results data'))), s, tr'')))"
  by (simp add: pageLoop.simps pagesToFetch_def split: prod.splits sum.splits option.splits)

lemma fetchMovies_keyMissing:
  "keyMissing key \<Longrightarrow>
   fetchMovies net key query (s, tr) =
     (s\<lparr>errorMessage := ''API key is missing. Please check your configuration.'',
        isLoading := False\<rparr>, tr)"
  by (simp add: fetchMovies_def)

lemma fetchMovies_error_clears:
  assumes "\<not> keyMissing key"
    and "errorMessage (fst (fetchMovies net key query (s, tr))) \<noteq> []"
  shows "movieList (fst (fetchMovies net key query (s, tr))) = []"
proof -
  obtain c s' tr' where
    p: "pageLoop net key query 1 [] (s\<lparr>isLoading := True, errorMessage := []\<rparr>, tr) = (c, s', tr')"
    by (cases "pageLoop net key query 1 [] (s\<lparr>isLoading := True, errorMessage := []\<rparr>, tr)")
  from pageLoop_state [OF p]
  have st: "c = Return \<longrightarrow> errorMessage s' \<noteq> [] \<and> movieList s' = []"
    "c \<noteq> Return \<longrightarrow> s' = s\<lparr>isLoading := True, errorMessage := []\<rparr>"
    by simp_all
  show ?thesis
  proof (cases c)
    case (Normal all)
    with assms p st show ?thesis by (simp add: fetchMovies_def)
  next
    case Return
    with assms p st show ?thesis by (simp add: fetchMovies_def)
  next
    case (Throw e)
    with assms p st show ?thesis by (simp add: fetchMovies_def)
  qed
qed

text \<open>A run is its two blocks, when no other run writes in between.\<close>

lemma fetchMovies_split:
  "fetchMovies net key query (s, tr) =
     (if keyMissing key then (startRun key s, tr)
      else finishRun net key query (startRun key s, tr))"
  by (simp add: fetchMovies_def startRun_def finishRun_def)

text \<open>Without a key no run gets past its first block: nothing is in flight and the
  list stays empty, however the runs overlap.\<close>

lemma reachable_inv:
  "reachable key (s, inFlight) \<Longrightarrow> keyMissing key \<Longrightarrow> movieList s = [] \<and> inFlight = []"
proof (induction "(s, inFlight)" arbitrary: s inFlight rule: reachable.induct)
  case reach_init
  show ?case by (simp add: initialState_def)
next
  case (reach_start s inFlight)
  then show ?case by (simp add: startRun_def)
next
  case (reach_finish s inFlight query net tr)
  from reach_finish.hyps(2) [OF reach_finish.prems] reach_finish.hyps(3)
  show ?case by simp
next
  case (reach_search s inFlight v)
  then show ?case by (simp add: setSearchTerm_def)
next
  case (reach_click s inFlight movie)
  then show ?case by (simp add: handleMovieClick_def)
next
  case (reach_close s inFlight)
  then show ?case by (simp add: closeModal_def)
qed

lemma filter_update_other:
  "filter (\<lambda>kv. fst kv \<noteq> k) (AList.update k v al) = filter (\<lambda>kv. fst kv \<noteq> k) al"
  by (induction al) auto

subsection \<open>The retrying call\<close>

text \<open>
  C10. For every URL and every options, \<open>fetchWithRetry\<close> called with \<open>retries \<le> 0\<close>
  makes no HTTP attempt and waits for no delay (the trace is the one it was given), and
  its promise resolves with \<open>undefined\<close>; it does not reject.
\<close>

theorem fetchWithRetry_no_attempts:
  "retries \<le> 0 \<Longrightarrow> fetchWithRetry net url opts retries delay tr = (Inr None, tr)"
  by (simp add: fetchWithRetry_def fetchWithRetryLoop.simps)

text \<open>Against a network that would answer at once, with \<open>retries\<close> 0 and -1.\<close>

theorem fetchWithRetry_no_attempts_witness:
  "(0::int) \<le> 0
   \<and> fetchWithRetry (failingFirst 0) (endpoint [] 1) (API_OPTIONS (Some ''k'')) 0 1000 []
       = (Inr None, [])
   \<and> (- 1::int) \<le> 0
   \<and> fetchWithRetry (failingFirst 0) (endpoint [] 1) (API_OPTIONS (Some ''k'')) (- 1) 1000 []
       = (Inr None, [])"
proof -
  have z: "(0::int) \<le> 0" and m: "(- 1::int) \<le> 0" by simp_all
  show ?thesis
    using fetchWithRetry_no_attempts [OF z, of "failingFirst 0" "endpoint [] 1"
            "API_OPTIONS (Some ''k'')" 1000 "[]"]
          fetchWithRetry_no_attempts [OF m, of "failingFirst 0" "endpoint [] 1"
            "API_OPTIONS (Some ''k'')" 1000 "[]"]
    by simp
qed

text \<open>
  C2. \<open>fetchWithRetry\<close> with \<open>retries = 3\<close>, started on the trace \<open>tr\<close>:
  \<^item> an attempt that succeeds ends the call with its value, and nothing is requested
    or waited for after it: after the first attempt the trace has one request and no
    delay, after the second two requests and one delay;
  \<^item> when attempts 1 and 2 fail and attempt 3 succeeds, the call returns the value of
    attempt 3, and the trace has exactly two delays, one after each failure, and none
    after the third request;
  \<^item> when all three attempts fail, the call rejects with the very error of the third
    attempt, and no delay follows the third request.
\<close>

theorem fetchWithRetry_three_attempts:
  "(attempt (net tr url opts) = Inr v \<longrightarrow>
      fetchWithRetry net url opts 3 d tr = (Inr (Some v), tr @ [Request url opts]))
   \<and> (attempt (net tr url opts) = Inl e1 \<and>
       attempt (net (tr @ [Request url opts, Delay d]) url opts) = Inr v \<longrightarrow>
      fetchWithRetry net url opts 3 d tr
        = (Inr (Some v), tr @ [Request url opts, Delay d, Request url opts]))
   \<and> (attempt (net tr url opts) = Inl e1 \<and>
       attempt (net (tr @ [Request url opts, Delay d]) url opts) = Inl e2 \<and>
       attempt (net (tr @ [Request url opts, Delay d, Request url opts, Delay d]) url opts)
         = Inr v \<longrightarrow>
      fetchWithRetry net url opts 3 d tr
        = (Inr (Some v),
           tr @ [Request url opts, Delay d, Request url opts, Delay d, Request url opts]))
   \<and> (attempt (net tr url opts) = Inl e1 \<and>
       attempt (net (tr @ [Request url opts, Delay d]) url opts) = Inl e2 \<and>
       attempt (net (tr @ [Request url opts, Delay d, Request url opts, Delay d]) url opts)
         = Inl e3 \<longrightarrow>
      fetchWithRetry net url opts 3 d tr
        = (Inl e3,
           tr @ [Request url opts, Delay d, Request url opts, Delay d, Request url opts]))"
  by (simp add: fetchWithRetry_def fetchWithRetryLoop.simps)

text \<open>Two rejected calls and then an answer; and three rejected calls, of which the
  last one's error comes back.\<close>

theorem fetchWithRetry_three_attempts_witness:
  "attempt (failingFirst 2 [] ''u'' (API_OPTIONS (Some ''k''))) = Inl (Error ''Failed to fetch, attempt 1'')
   \<and> attempt (failingFirst 2 [Request ''u'' (API_OPTIONS (Some ''k'')), Delay 1000] ''u'' (API_OPTIONS (Some ''k'')))
       = Inl (Error ''Failed to fetch, attempt 2'')
   \<and> attempt (failingFirst 2 [Request ''u'' (API_OPTIONS (Some ''k'')), Delay 1000, Request ''u'' (API_OPTIONS (Some ''k'')), Delay 1000]
                ''u'' (API_OPTIONS (Some ''k'')))
       = Inr \<lparr>results = Some [sampleMovie]\<rparr>
   \<and> fetchWithRetry (failingFirst 2) ''u'' (API_OPTIONS (Some ''k'')) 3 1000 []
       = (Inr (Some \<lparr>results = Some [sampleMovie]\<rparr>),
          [Request ''u'' (API_OPTIONS (Some ''k'')), Delay 1000, Request ''u'' (API_OPTIONS (Some ''k'')), Delay 1000, Request ''u'' (API_OPTIONS (Some ''k''))])
   \<and> delays (snd (fetchWithRetry (failingFirst 2) ''u'' (API_OPTIONS (Some ''k'')) 3 1000 [])) = [1000, 1000]
   \<and> attempt (failingFirst 3 [Request ''u'' (API_OPTIONS (Some ''k'')), Delay 1000, Request ''u'' (API_OPTIONS (Some ''k'')), Delay 1000]
                ''u'' (API_OPTIONS (Some ''k'')))
       = Inl (Error ''Failed to fetch, attempt 3'')
   \<and> fetchWithRetry (failingFirst 3) ''u'' (API_OPTIONS (Some ''k'')) 3 1000 []
       = (Inl (Error ''Failed to fetch, attempt 3''),
          [Request ''u'' (API_OPTIONS (Some ''k'')), Delay 1000, Request ''u'' (API_OPTIONS (Some ''k'')), Delay 1000, Request ''u'' (API_OPTIONS (Some ''k''))])
   \<and> fetchWithRetry (failingFirst 0) ''u'' (API_OPTIONS (Some ''k'')) 3 1000 []
       = (Inr (Some \<lparr>results = Some [sampleMovie]\<rparr>), [Request ''u'' (API_OPTIONS (Some ''k''))])"
proof -
  let ?t1 = "[Request ''u'' (API_OPTIONS (Some ''k'')), Delay 1000]"
  let ?t2 = "[Request ''u'' (API_OPTIONS (Some ''k'')), Delay 1000, Request ''u'' (API_OPTIONS (Some ''k'')), Delay 1000]"
  have a1: "attempt (failingFirst 2 [] ''u'' (API_OPTIONS (Some ''k''))) = Inl (Error ''Failed to fetch, attempt 1'')"
    and a2: "attempt (failingFirst 2 ?t1 ''u'' (API_OPTIONS (Some ''k''))) = Inl (Error ''Failed to fetch, attempt 2'')"
    and a3: "attempt (failingFirst 2 ?t2 ''u'' (API_OPTIONS (Some ''k''))) = Inr \<lparr>results = Some [sampleMovie]\<rparr>"
    by (simp_all add: run_defs)
  have b1: "attempt (failingFirst 3 [] ''u'' (API_OPTIONS (Some ''k''))) = Inl (Error ''Failed to fetch, attempt 1'')"
    and b2: "attempt (failingFirst 3 ?t1 ''u'' (API_OPTIONS (Some ''k''))) = Inl (Error ''Failed to fetch, attempt 2'')"
    and b3: "attempt (failingFirst 3 ?t2 ''u'' (API_OPTIONS (Some ''k''))) = Inl (Error ''Failed to fetch, attempt 3'')"
    by (simp_all add: run_defs)
  have c1: "attempt (failingFirst 0 [] ''u'' (API_OPTIONS (Some ''k''))) = Inr \<lparr>results = Some [sampleMovie]\<rparr>"
    by (simp add: run_defs)
  note two = fetchWithRetry_three_attempts [of "failingFirst 2" "[]" "''u''" "API_OPTIONS (Some ''k'')"
      "\<lparr>results = Some [sampleMovie]\<rparr>" 1000 "Error ''Failed to fetch, attempt 1''"
      "Error ''Failed to fetch, attempt 2''"]
  note three = fetchWithRetry_three_attempts [of "failingFirst 3" "[]" "''u''" "API_OPTIONS (Some ''k'')"
      _ 1000 "Error ''Failed to fetch, attempt 1''"
      "Error ''Failed to fetch, attempt 2''" "Error ''Failed to fetch, attempt 3''"]
  note none = fetchWithRetry_three_attempts [of "failingFirst 0" "[]" "''u''" "API_OPTIONS (Some ''k'')"
      "\<lparr>results = Some [sampleMovie]\<rparr>" 1000]
  have r2: "fetchWithRetry (failingFirst 2) ''u'' (API_OPTIONS (Some ''k'')) 3 1000 []
       = (Inr (Some \<lparr>results = Some [sampleMovie]\<rparr>),
          [Request ''u'' (API_OPTIONS (Some ''k'')), Delay 1000, Request ''u'' (API_OPTIONS (Some ''k'')), Delay 1000, Request ''u'' (API_OPTIONS (Some ''k''))])"
    using two a1 a2 a3 by simp
  have r3: "fetchWithRetry (failingFirst 3) ''u'' (API_OPTIONS (Some ''k'')) 3 1000 []
       = (Inl (Error ''Failed to fetch, attempt 3''),
          [Request ''u'' (API_OPTIONS (Some ''k'')), Delay 1000, Request ''u'' (API_OPTIONS (Some ''k'')), Delay 1000, Request ''u'' (API_OPTIONS (Some ''k''))])"
    using three b1 b2 b3 by simp
  have r0: "fetchWithRetry (failingFirst 0) ''u'' (API_OPTIONS (Some ''k'')) 3 1000 []
       = (Inr (Some \<lparr>results = Some [sampleMovie]\<rparr>), [Request ''u'' (API_OPTIONS (Some ''k''))])"
    using none c1 by simp
  show ?thesis using a1 a2 a3 b3 r2 r3 r0 by simp
qed

subsection \<open>Outcomes of \<open>fetchMovies\<close>\<close>

text \<open>
  C5. When no API key is configured (\<open>API_KEY\<close> is \<open>undefined\<close> or empty),
  \<open>fetchMovies\<close> sets the configuration-missing message and returns at once, for
  every query and every network: the trace is the one it was given, so no HTTP call
  is made.
\<close>

theorem fetchMovies_no_key:
  assumes "keyMissing key"
  shows "fetchMovies net key query (s, tr) =
           (s\<lparr>errorMessage := ''API key is missing. Please check your configuration.'',
              isLoading := False\<rparr>, tr)
         \<and> requests (snd (fetchMovies net key query (s, tr))) = requests tr"
  using assms by (simp add: fetchMovies_def)

text \<open>Without a key, against a network that would answer every call.\<close>

theorem fetchMovies_no_key_witness:
  "keyMissing None
   \<and> fetchMovies (failingFirst 0) None ''batman'' (initialState, []) =
       (initialState\<lparr>errorMessage := ''API key is missing. Please check your configuration.'',
                     isLoading := False\<rparr>, [])
   \<and> requests (snd (fetchMovies (failingFirst 0) None ''batman'' (initialState, []))) = []"
proof -
  have k: "keyMissing None" by (simp add: keyMissing_def)
  show ?thesis
    using k fetchMovies_no_key [OF k, of "failingFirst 0" "''batman''" initialState "[]"]
    by simp
qed

text \<open>The state after two overlapping runs (see \<open>overlapExample\<close>) can be reached.\<close>

lemma overlapExample_reachable: "reachable (Some ''k'') (overlapExample, [])"
proof -
  let ?net = "pagesNet (Some []) (Some [sampleMovie])"
  have k: "\<not> keyMissing (Some ''k'')" by (simp add: keyMissing_def)
  have t: "searchTerm initialState = []" by (simp add: initialState_def)
  have r1: "reachable (Some ''k'') (startRun (Some ''k'') initialState, [[]])"
    using reach_start [OF reach_init, of "Some ''k''"] k t by simp
  have r2: "reachable (Some ''k'')
              (setSearchTerm ''batman'' (startRun (Some ''k'') initialState), [[]])"
    by (rule reach_search [OF r1])
  have t': "searchTerm (setSearchTerm ''batman'' (startRun (Some ''k'') initialState))
              = ''batman''"
    by (simp add: setSearchTerm_def)
  have r3: "reachable (Some ''k'') (overlapStarted, [''batman'', []])"
    using reach_start [OF r2] k t' by (simp add: overlapStarted_def)
  have r4: "reachable (Some ''k'') (overlapSearchDone, [[]])"
    using reach_finish [OF r3, of "''batman''" ?net "[]"] by (simp add: overlapSearchDone_def)
  show ?thesis
    using reach_finish [OF r4, of "[]" ?net
            "[Request (endpoint ''batman'' 1) (API_OPTIONS (Some ''k''))]"]
    by (simp add: overlapExample_def)
qed

text \<open>
  C1, as the specification states it, does not hold: runs of \<open>fetchMovies\<close> overlap
  (lines 92 to 94 start one on every change of the search term and cancel nothing),
  and a run that succeeds sets the list (line 74) without touching the message, which
  it cleared only when it started (line 47). Here the run for the home page starts,
  the run for the search ``batman'' starts and ends with no results, and then the
  home page arrives: the page holds the search's message and the home page's records.
\<close>

theorem fetchMovies_overlap_counterexample:
  "reachable (Some ''k'') (overlapExample, [])
   \<and> errorMessage overlapSearchDone = ''No movies found for your search''
   \<and> movieList overlapSearchDone = []
   \<and> errorMessage overlapExample = ''No movies found for your search''
   \<and> movieList overlapExample = [transformMovie sampleMovie, transformMovie sampleMovie]
   \<and> errorMessage overlapExample \<noteq> [] \<and> movieList overlapExample \<noteq> []"
proof -
  have e: "errorMessage overlapSearchDone = ''No movies found for your search''"
    "movieList overlapSearchDone = []"
    "errorMessage overlapExample = ''No movies found for your search''"
    "movieList overlapExample = [transformMovie sampleMovie, transformMovie sampleMovie]"
    by (simp_all add: overlapExample_def overlapSearchDone_def overlapStarted_def
          startRun_def setSearchTerm_def finishRun_def run_defs)
  with overlapExample_reachable show ?thesis by simp
qed

text \<open>
  C1, amended. In every state the page can reach, runs in flight or not:
  \<^item> the block in which a run produces an error outcome leaves the message set and
    the list empty: the missing-key message (the list is empty whenever no key is
    configured), and, when the run finishes, the no-results message or the message
    for a caught error, with which the block empties the list, so that what the loop
    had accumulated is dropped;
  \<^item> a run into which no other run writes (\<open>fetchMovies\<close> as one step) that leaves a
    message leaves the list empty: after it, message and list are not both set.
  What does not hold is the same for a run that succeeds after an overlapping run has
  failed: its block sets the list and leaves the other run's message.
\<close>

theorem fetchMovies_error_outcome_exclusive:
  assumes "reachable key (s, inFlight)"
  shows "(keyMissing key \<longrightarrow>
            errorMessage (startRun key s)
              = ''API key is missing. Please check your configuration.''
            \<and> movieList (startRun key s) = [])
         \<and> (fst (pageLoop net key query 1 [] (s, tr)) = Return \<longrightarrow>
              errorMessage (fst (finishRun net key query (s, tr))) \<noteq> []
              \<and> movieList (fst (finishRun net key query (s, tr))) = [])
         \<and> (fst (pageLoop net key query 1 [] (s, tr)) = Throw e \<longrightarrow>
              errorMessage (fst (finishRun net key query (s, tr))) \<noteq> []
              \<and> movieList (fst (finishRun net key query (s, tr))) = [])
         \<and> (errorMessage (fst (fetchMovies net key query (s, tr))) \<noteq> [] \<longrightarrow>
              movieList (fst (fetchMovies net key query (s, tr))) = [])"
proof (intro conjI impI)
  assume k: "keyMissing key"
  then show "errorMessage (startRun key s)
               = ''API key is missing. Please check your configuration.''"
    by (simp add: startRun_def)
  from reachable_inv [OF assms k] k show "movieList (startRun key s) = []"
    by (simp add: startRun_def)
next
  obtain c s' tr' where p: "pageLoop net key query 1 [] (s, tr) = (c, s', tr')"
    by (cases "pageLoop net key query 1 [] (s, tr)")
  note st = pageLoop_state [OF p]
  have msg: "errorMsg x \<noteq> []" for x by (simp add: errorMsg_def)
  {
    assume "fst (pageLoop net key query 1 [] (s, tr)) = Return"
    with p st show "errorMessage (fst (finishRun net key query (s, tr))) \<noteq> []"
      and "movieList (fst (finishRun net key query (s, tr))) = []"
      by (simp_all add: finishRun_def)
  }
  {
    assume "fst (pageLoop net key query 1 [] (s, tr)) = Throw e"
    with p st msg show "errorMessage (fst (finishRun net key query (s, tr))) \<noteq> []"
      and "movieList (fst (finishRun net key query (s, tr))) = []"
      by (simp_all add: finishRun_def)
  }
next
  assume m: "errorMessage (fst (fetchMovies net key query (s, tr))) \<noteq> []"
  show "movieList (fst (fetchMovies net key query (s, tr))) = []"
  proof (cases "keyMissing key")
    case True
    with reachable_inv [OF assms True] show ?thesis by (simp add: fetchMovies_keyMissing)
  next
    case False
    from fetchMovies_error_clears [OF False m] show ?thesis .
  qed
qed

text \<open>From the state left by the two overlapping runs, with nothing in flight: the
  search's own finishing block; then a run for the home page that gets the first
  page and then status 429 three times, which sets the message and empties the list,
  the first page's record included. And a page without a key.\<close>

theorem fetchMovies_error_outcome_exclusive_witness:
  "reachable (Some ''k'') (overlapExample, [])
   \<and> movieList overlapExample = [transformMovie sampleMovie, transformMovie sampleMovie]
   \<and> fst (pageLoop (thenStatusNet 429) (Some ''k'') [] 1 [] (overlapExample, []))
       = Throw (Error ''HTTP error! status: 429'')
   \<and> errorMessage (fst (finishRun (thenStatusNet 429) (Some ''k'') [] (overlapExample, [])))
       \<noteq> []
   \<and> movieList (fst (finishRun (thenStatusNet 429) (Some ''k'') [] (overlapExample, []))) = []
   \<and> errorMessage (fst (fetchMovies (thenStatusNet 429) (Some ''k'') [] (overlapExample, [])))
       = ''Rate limit exceeded. Please try again later.''
   \<and> movieList (fst (fetchMovies (thenStatusNet 429) (Some ''k'') [] (overlapExample, [])))
       = []
   \<and> fst (pageLoop (pagesNet (Some []) (Some [sampleMovie])) (Some ''k'') ''batman'' 1 []
            (overlapExample, []))
       = Return
   \<and> movieList (fst (finishRun (pagesNet (Some []) (Some [sampleMovie])) (Some ''k'')
                        ''batman'' (overlapExample, []))) = []
   \<and> reachable None (initialState, [])
   \<and> keyMissing None
   \<and> errorMessage (startRun None initialState)
       = ''API key is missing. Please check your configuration.''
   \<and> movieList (startRun None initialState) = []"
proof -
  let ?net = "thenStatusNet 429"
  let ?empty = "pagesNet (Some []) (Some [sampleMovie])"
  note r = overlapExample_reachable
  have l: "movieList overlapExample = [transformMovie sampleMovie, transformMovie sampleMovie]"
    by (simp add: overlapExample_def overlapSearchDone_def overlapStarted_def
          startRun_def setSearchTerm_def finishRun_def run_defs)
  have p: "fst (pageLoop ?net (Some ''k'') [] 1 [] (overlapExample, []))
             = Throw (Error ''HTTP error! status: 429'')"
    by (simp add: run_defs thenStatusNet_def)
  have q: "fst (pageLoop ?empty (Some ''k'') ''batman'' 1 [] (overlapExample, [])) = Return"
    by (simp add: run_defs)
  have e: "errorMessage (fst (fetchMovies ?net (Some ''k'') [] (overlapExample, [])))
             = ''Rate limit exceeded. Please try again later.''"
    by (simp add: run_defs thenStatusNet_def)
  have n: "keyMissing None" by (simp add: keyMissing_def)
  note a = fetchMovies_error_outcome_exclusive [OF r, of ?net "[]" "[]"
      "Error ''HTTP error! status: 429''"]
  note b = fetchMovies_error_outcome_exclusive [OF r, of ?empty "''batman''" "[]"]
  note c = fetchMovies_error_outcome_exclusive [OF reach_init, of None]
  show ?thesis using r l p q e n a b c reach_init [of None] by simp
qed



text \<open>
  C6. For every query, key, network and state, the URLs that a run of \<open>fetchMovies\<close>
  requests are: the URL of page 1 at most three times (the attempts of one retrying
  call), then the URL of page 2 at most three times. Page 2 is never requested for a
  non-empty query, and never unless page 1 was requested before it; the two URLs
  differ. So a search requests at most 1 page and the home page at most 2, in the
  order 1, 2.
\<close>

theorem fetchMovies_pages:
  "(\<exists>n1 n2. requests (snd (fetchMovies net key query (s, tr)))
               = requests tr @ replicate n1 (endpoint query 1) @ replicate n2 (endpoint query 2)
            \<and> n1 \<le> 3 \<and> n2 \<le> 3 \<and> (query \<noteq> [] \<longrightarrow> n2 = 0) \<and> (0 < n2 \<longrightarrow> 0 < n1))
   \<and> endpoint query 1 \<noteq> endpoint query 2
   \<and> pagesToFetch query = (if query \<noteq> [] then 1 else 2)"
proof (intro conjI)
  show "endpoint query 1 \<noteq> endpoint query 2" by (rule endpoint_pages_differ)
next
  show "pagesToFetch query = (if query \<noteq> [] then 1 else 2)" by (simp add: pagesToFetch_def)
next
  let ?P = "\<lambda>t n1 n2. requests t
               = requests tr @ replicate n1 (endpoint query 1) @ replicate n2 (endpoint query 2)
            \<and> n1 \<le> 3 \<and> n2 \<le> 3 \<and> (query \<noteq> [] \<longrightarrow> n2 = 0) \<and> (0 < n2 \<longrightarrow> 0 < n1)"
  have cons: "requests (t @ [ConsoleError a b]) = requests t" for t a b
    by (simp add: requests_append)
  show "\<exists>n1 n2. ?P (snd (fetchMovies net key query (s, tr))) n1 n2"
  proof (cases "keyMissing key")
    case True
    then have "?P (snd (fetchMovies net key query (s, tr))) 0 0"
      by (simp add: fetchMovies_def)
    then show ?thesis by blast
  next
    case key: False
    obtain r1 tr1 where f1: "fetchPage net key query 1 tr = (r1, tr1)"
      by (cases "fetchPage net key query 1 tr")
    from fetchWithRetry_3_requests [OF f1]
    obtain n1 where n1: "0 < n1" "n1 \<le> 3"
      "requests tr1 = requests tr @ replicate n1 (endpoint query 1)"
      by blast
    obtain r2 tr2 where f2: "fetchPage net key query 2 tr1 = (r2, tr2)"
      by (cases "fetchPage net key query 2 tr1")
    from fetchWithRetry_3_requests [OF f2]
    obtain n2 where n2: "0 < n2" "n2 \<le> 3"
      "requests tr2 = requests tr1 @ replicate n2 (endpoint query 2)"
      by blast
    have one: "?P tr1 n1 0" using n1 by simp
    have two: "query = [] \<Longrightarrow> ?P tr2 n1 n2" using n1 n2 by simp
    have "requests (snd (fetchMovies net key query (s, tr))) = requests tr1
          \<or> query = [] \<and> requests (snd (fetchMovies net key query (s, tr))) = requests tr2"
    proof (cases "query = []")
      case False
      with key f1 show ?thesis
        by (simp add: fetchMovies_def pageLoop_search cons split: sum.splits option.splits)
    next
      case True
      with key f1 f2 show ?thesis
        by (simp add: fetchMovies_def pageLoop_browse cons split: sum.splits option.splits)
    qed
    then have "?P (snd (fetchMovies net key query (s, tr))) n1 0
             \<or> ?P (snd (fetchMovies net key query (s, tr))) n1 n2"
      using one two by auto
    then show ?thesis by blast
  qed
qed

text \<open>A search whose first call is rejected: page 1 twice and nothing else. The home
  page with the same network: page 1 twice, then page 2.\<close>

theorem fetchMovies_pages_witness:
  "''batman'' \<noteq> []
   \<and> requests (snd (fetchMovies (failingFirst 1) (Some ''k'') ''batman'' (initialState, [])))
       = replicate 2 (endpoint ''batman'' 1)
   \<and> (\<exists>n1. requests (snd (fetchMovies (failingFirst 1) (Some ''k'') ''batman''
                             (initialState, [])))
              = replicate n1 (endpoint ''batman'' 1) \<and> n1 \<le> 3)
   \<and> requests (snd (fetchMovies (failingFirst 1) (Some ''k'') [] (initialState, [])))
       = replicate 2 (endpoint [] 1) @ replicate 1 (endpoint [] 2)"
proof -
  have q: "''batman'' \<noteq> []" by simp
  have e1: "requests (snd (fetchMovies (failingFirst 1) (Some ''k'') ''batman''
                             (initialState, [])))
       = replicate 2 (endpoint ''batman'' 1)"
    by (simp add: run_defs numeral_2_eq_2)
  have e2: "requests (snd (fetchMovies (failingFirst 1) (Some ''k'') [] (initialState, [])))
       = replicate 2 (endpoint [] 1) @ replicate 1 (endpoint [] 2)"
    by (simp add: run_defs numeral_2_eq_2)
  from fetchMovies_pages [of "failingFirst 1" "Some ''k''" "''batman''" initialState "[]"] q
  have "\<exists>n1. requests (snd (fetchMovies (failingFirst 1) (Some ''k'') ''batman''
                             (initialState, [])))
              = replicate n1 (endpoint ''batman'' 1) \<and> n1 \<le> 3"
    by auto
  with q e1 e2 show ?thesis by blast
qed

text \<open>
  C8. A run of \<open>fetchMovies\<close> that ends without an error message got a non-empty
  first page, and its movie list is the transformed records of that page in their
  order, followed for the home page by the transformed records of page 2 in their
  order (none when page 2 had no results). In particular, when the two pages of the
  home page have 20 records each, the list is the 20 transformed records of page 1
  followed by the 20 of page 2, 40 entries.
\<close>

theorem fetchMovies_success_concat:
  "(errorMessage (fst (fetchMovies net key query (s, tr))) = [] \<longrightarrow>
      (\<exists>d1 tr1 rs1. fetchPage net key query 1 tr = (Inr (Some d1), tr1)
          \<and> results d1 = Some rs1 \<and> rs1 \<noteq> []
          \<and> (if query \<noteq> []
             then movieList (fst (fetchMovies net key query (s, tr))) = map transformMovie rs1
             else \<exists>d2 tr2. fetchPage net key query 2 tr1 = (Inr (Some d2), tr2)
                    \<and> movieList (fst (fetchMovies net key query (s, tr)))
                        = map transformMovie rs1
                          @ map transformMovie
                              (case results d2 of None \<Rightarrow> [] | Some rs2 \<Rightarrow> rs2))))
   \<and> (\<not> keyMissing key \<and> fetchPage net key [] 1 tr = (Inr (Some d1), tr1)
        \<and> results d1 = Some rs1 \<and> length rs1 = 20
        \<and> fetchPage net key [] 2 tr1 = (Inr (Some d2), tr2)
        \<and> results d2 = Some rs2 \<and> length rs2 = 20
      \<longrightarrow> fetchMovies net key [] (s, tr)
            = (s\<lparr>isLoading := False, errorMessage := [],
                 movieList := map transformMovie rs1 @ map transformMovie rs2\<rparr>, tr2)
          \<and> length (movieList (fst (fetchMovies net key [] (s, tr)))) = 40)"
proof (intro conjI impI)
  assume ok: "errorMessage (fst (fetchMovies net key query (s, tr))) = []"
  then have key: "\<not> keyMissing key"
    by (auto simp: fetchMovies_def)
  have msg: "errorMsg e \<noteq> []" for e by (simp add: errorMsg_def)
  obtain r1 tr1 where f1: "fetchPage net key query 1 tr = (r1, tr1)"
    by (cases "fetchPage net key query 1 tr")
  obtain r2 tr2 where f2: "fetchPage net key query 2 tr1 = (r2, tr2)"
    by (cases "fetchPage net key query 2 tr1")
  show "\<exists>d1 tr1 rs1. fetchPage net key query 1 tr = (Inr (Some d1), tr1)
          \<and> results d1 = Some rs1 \<and> rs1 \<noteq> []
          \<and> (if query \<noteq> []
             then movieList (fst (fetchMovies net key query (s, tr))) = map transformMovie rs1
             else \<exists>d2 tr2. fetchPage net key query 2 tr1 = (Inr (Some d2), tr2)
                    \<and> movieList (fst (fetchMovies net key query (s, tr)))
                        = map transformMovie rs1
                          @ map transformMovie
                              (case results d2 of None \<Rightarrow> [] | Some rs2 \<Rightarrow> rs2))"
  proof (cases "query = []")
    case False
    with ok key f1 show ?thesis
      by (auto simp add: fetchMovies_def pageLoop_search msg noResults_def
               split: sum.splits option.splits if_splits)
  next
    case True
    with ok key f1 f2 show ?thesis
      by (auto simp add: fetchMovies_def pageLoop_browse msg noResults_def
               split: sum.splits option.splits if_splits)
  qed
next
  assume a: "\<not> keyMissing key \<and> fetchPage net key [] 1 tr = (Inr (Some d1), tr1)
        \<and> results d1 = Some rs1 \<and> length rs1 = 20
        \<and> fetchPage net key [] 2 tr1 = (Inr (Some d2), tr2)
        \<and> results d2 = Some rs2 \<and> length rs2 = 20"
  then show eq: "fetchMovies net key [] (s, tr)
            = (s\<lparr>isLoading := False, errorMessage := [],
                 movieList := map transformMovie rs1 @ map transformMovie rs2\<rparr>, tr2)"
    by (simp add: fetchMovies_def pageLoop_browse noResults_def)
  from a show "length (movieList (fst (fetchMovies net key [] (s, tr)))) = 40"
    by (simp add: eq)
qed

text \<open>Twenty records with a poster on page 1 and twenty without on page 2.\<close>

theorem fetchMovies_success_concat_witness:
  "\<not> keyMissing (Some ''k'')
   \<and> fetchPage (pagesNet (Some (replicate 20 sampleMovie)) (Some (replicate 20 noPosterMovie)))
         (Some ''k'') [] 1 []
       = (Inr (Some \<lparr>results = Some (replicate 20 sampleMovie)\<rparr>),
          [Request (endpoint [] 1) (API_OPTIONS (Some ''k''))])
   \<and> length (replicate 20 sampleMovie) = 20
   \<and> fetchPage (pagesNet (Some (replicate 20 sampleMovie)) (Some (replicate 20 noPosterMovie)))
         (Some ''k'') [] 2 [Request (endpoint [] 1) (API_OPTIONS (Some ''k''))]
       = (Inr (Some \<lparr>results = Some (replicate 20 noPosterMovie)\<rparr>),
          [Request (endpoint [] 1) (API_OPTIONS (Some ''k'')),
           Request (endpoint [] 2) (API_OPTIONS (Some ''k''))])
   \<and> length (replicate 20 noPosterMovie) = 20
   \<and> fetchMovies (pagesNet (Some (replicate 20 sampleMovie)) (Some (replicate 20 noPosterMovie)))
         (Some ''k'') [] (initialState, [])
       = (initialState\<lparr>isLoading := False, errorMessage := [],
            movieList := replicate 20 (transformMovie sampleMovie)
                           @ replicate 20 (transformMovie noPosterMovie)\<rparr>,
          [Request (endpoint [] 1) (API_OPTIONS (Some ''k'')),
           Request (endpoint [] 2) (API_OPTIONS (Some ''k''))])
   \<and> length (movieList (fst (fetchMovies
         (pagesNet (Some (replicate 20 sampleMovie)) (Some (replicate 20 noPosterMovie)))
         (Some ''k'') [] (initialState, [])))) = 40"
proof -
  let ?o = "API_OPTIONS (Some ''k'')"
  let ?net = "pagesNet (Some (replicate 20 sampleMovie)) (Some (replicate 20 noPosterMovie))"
  have k: "\<not> keyMissing (Some ''k'')" by (simp add: keyMissing_def)
  have p1: "fetchPage ?net (Some ''k'') [] 1 []
       = (Inr (Some \<lparr>results = Some (replicate 20 sampleMovie)\<rparr>),
          [Request (endpoint [] 1) ?o])"
    by (simp add: fetchWithRetry_def fetchWithRetryLoop.simps attempt_def pagesNet_def
          respond_def)
  have p2: "fetchPage ?net (Some ''k'') [] 2 [Request (endpoint [] 1) ?o]
       = (Inr (Some \<lparr>results = Some (replicate 20 noPosterMovie)\<rparr>),
          [Request (endpoint [] 1) ?o, Request (endpoint [] 2) ?o])"
    by (simp add: fetchWithRetry_def fetchWithRetryLoop.simps attempt_def pagesNet_def
          respond_def)
  have l: "length (replicate 20 sampleMovie) = 20" "length (replicate 20 noPosterMovie) = 20"
    by simp_all
  note inst = fetchMovies_success_concat [of ?net "Some ''k''" "[]" initialState "[]"
      "\<lparr>results = Some (replicate 20 sampleMovie)\<rparr>" "[Request (endpoint [] 1) ?o]"
      "replicate 20 sampleMovie" "\<lparr>results = Some (replicate 20 noPosterMovie)\<rparr>"
      "[Request (endpoint [] 1) ?o, Request (endpoint [] 2) ?o]" "replicate 20 noPosterMovie"]
  have r: "fetchMovies ?net (Some ''k'') [] (initialState, [])
       = (initialState\<lparr>isLoading := False, errorMessage := [],
            movieList := replicate 20 (transformMovie sampleMovie)
                           @ replicate 20 (transformMovie noPosterMovie)\<rparr>,
          [Request (endpoint [] 1) ?o, Request (endpoint [] 2) ?o])"
    and n: "length (movieList (fst (fetchMovies ?net (Some ''k'') [] (initialState, [])))) = 40"
    using inst k p1 p2 l by simp_all
  show ?thesis using k p1 p2 l r n by simp
qed

subsection \<open>The message for a caught error\<close>

text \<open>
  C4, as the specification states it, does not hold: a failure whose message contains
  both ``429'' and ``401'' gets the invalid-key message, not the rate-limit one,
  because line 79 tests for ``401'' first and line 81 is its \<open>else\<close>. Here every
  answer has a body that is not JSON, and the parser's message names line 401,
  column 429.
\<close>

theorem fetchMovies_rate_limit_counterexample:
  "fst (fetchPage badJsonNet (Some ''k'') ''batman'' 1 [])
     = Inl (Error ''JSON.parse: unexpected character at line 401 column 429 of the JSON data'')
   \<and> str_includes
       ''JSON.parse: unexpected character at line 401 column 429 of the JSON data'' ''429''
   \<and> errorMessage (fst (fetchMovies badJsonNet (Some ''k'') ''batman'' (initialState, [])))
       \<noteq> ''Rate limit exceeded. Please try again later.''
   \<and> errorMessage (fst (fetchMovies badJsonNet (Some ''k'') ''batman'' (initialState, [])))
       = ''Invalid API key. Please check your TMDB API configuration.''"
  by (simp add: run_defs badJsonNet_def)

text \<open>
  C4, amended. With a key configured, when the loop of \<open>fetchMovies\<close> throws the error
  \<open>e\<close>: if the message of \<open>e\<close> contains ``401'', the error message shown is the
  invalid-key one; if it contains ``429'' and not ``401'', the rate-limit one; if it
  contains neither, the try-again-later one. In each case the movie list is empty.
\<close>

theorem fetchMovies_error_classification:
  "\<not> keyMissing key \<and>
   pageLoop net key query 1 [] (s\<lparr>isLoading := True, errorMessage := []\<rparr>, tr)
     = (Throw e, s', tr')
   \<longrightarrow>
     (str_includes (message e) ''401'' \<longrightarrow>
        errorMessage (fst (fetchMovies net key query (s, tr)))
          = ''Invalid API key. Please check your TMDB API configuration.'')
   \<and> (\<not> str_includes (message e) ''401'' \<and> str_includes (message e) ''429'' \<longrightarrow>
        errorMessage (fst (fetchMovies net key query (s, tr)))
          = ''Rate limit exceeded. Please try again later.'')
   \<and> (\<not> str_includes (message e) ''401'' \<and> \<not> str_includes (message e) ''429'' \<longrightarrow>
        errorMessage (fst (fetchMovies net key query (s, tr)))
          = ''Error fetching movies. Please try again later.'')
   \<and> movieList (fst (fetchMovies net key query (s, tr))) = []"
  by (simp add: fetchMovies_def errorMsg_def)

text \<open>A provider that answers every attempt with status 401, with 429, with 500.\<close>

theorem fetchMovies_error_classification_witness:
  "\<not> keyMissing (Some ''k'')
   \<and> fst (pageLoop (statusNet 401) (Some ''k'') ''batman'' 1 []
            (initialState\<lparr>isLoading := True, errorMessage := []\<rparr>, []))
       = Throw (Error ''HTTP error! status: 401'')
   \<and> str_includes ''HTTP error! status: 401'' ''401''
   \<and> errorMessage (fst (fetchMovies (statusNet 401) (Some ''k'') ''batman'' (initialState, [])))
       = ''Invalid API key. Please check your TMDB API configuration.''
   \<and> fst (pageLoop (statusNet 429) (Some ''k'') ''batman'' 1 []
            (initialState\<lparr>isLoading := True, errorMessage := []\<rparr>, []))
       = Throw (Error ''HTTP error! status: 429'')
   \<and> \<not> str_includes ''HTTP error! status: 429'' ''401''
   \<and> str_includes ''HTTP error! status: 429'' ''429''
   \<and> errorMessage (fst (fetchMovies (statusNet 429) (Some ''k'') ''batman'' (initialState, [])))
       = ''Rate limit exceeded. Please try again later.''
   \<and> fst (pageLoop (statusNet 500) (Some ''k'') ''batman'' 1 []
            (initialState\<lparr>isLoading := True, errorMessage := []\<rparr>, []))
       = Throw (Error ''HTTP error! status: 500'')
   \<and> \<not> str_includes ''HTTP error! status: 500'' ''401''
   \<and> \<not> str_includes ''HTTP error! status: 500'' ''429''
   \<and> errorMessage (fst (fetchMovies (statusNet 500) (Some ''k'') ''batman'' (initialState, [])))
       = ''Error fetching movies. Please try again later.''"
proof -
  let ?s = "initialState\<lparr>isLoading := True, errorMessage := []\<rparr>"
  let ?o = "API_OPTIONS (Some ''k'')"
  let ?u = "endpoint ''batman'' 1"
  let ?t = "[Request ?u ?o, Delay 1000, Request ?u ?o, Delay 1000, Request ?u ?o]"
  have k: "\<not> keyMissing (Some ''k'')" by (simp add: keyMissing_def)
  have p1: "pageLoop (statusNet 401) (Some ''k'') ''batman'' 1 [] (?s, [])
              = (Throw (Error ''HTTP error! status: 401''), ?s, ?t)"
    and p2: "pageLoop (statusNet 429) (Some ''k'') ''batman'' 1 [] (?s, [])
              = (Throw (Error ''HTTP error! status: 429''), ?s, ?t)"
    and p3: "pageLoop (statusNet 500) (Some ''k'') ''batman'' 1 [] (?s, [])
              = (Throw (Error ''HTTP error! status: 500''), ?s, ?t)"
    by (simp_all add: pageLoop.simps pagesToFetch_def fetchWithRetry_def
          fetchWithRetryLoop.simps attempt_def statusNet_def httpStatus_def showNat.simps
          digit_def)
  have i: "str_includes ''HTTP error! status: 401'' ''401''"
    "\<not> str_includes ''HTTP error! status: 429'' ''401''"
    "str_includes ''HTTP error! status: 429'' ''429''"
    "\<not> str_includes ''HTTP error! status: 500'' ''401''"
    "\<not> str_includes ''HTTP error! status: 500'' ''429''"
    by (simp_all add: str_includes_def sublist_code(3))
  have r1: "errorMessage (fst (fetchMovies (statusNet 401) (Some ''k'') ''batman''
                                 (initialState, [])))
       = ''Invalid API key. Please check your TMDB API configuration.''"
    using fetchMovies_error_classification [of "Some ''k''" "statusNet 401" "''batman''"
            initialState "[]" "Error ''HTTP error! status: 401''" ?s ?t] k p1 i
    by simp
  have r2: "errorMessage (fst (fetchMovies (statusNet 429) (Some ''k'') ''batman''
                                 (initialState, [])))
       = ''Rate limit exceeded. Please try again later.''"
    using fetchMovies_error_classification [of "Some ''k''" "statusNet 429" "''batman''"
            initialState "[]" "Error ''HTTP error! status: 429''" ?s ?t] k p2 i
    by simp
  have r3: "errorMessage (fst (fetchMovies (statusNet 500) (Some ''k'') ''batman''
                                 (initialState, [])))
       = ''Error fetching movies. Please try again later.''"
    using fetchMovies_error_classification [of "Some ''k''" "statusNet 500" "''batman''"
            initialState "[]" "Error ''HTTP error! status: 500''" ?s ?t] k p3 i
    by simp
  show ?thesis using k p1 p2 p3 i r1 r2 r3 by simp
qed

subsection \<open>Transforming a record\<close>

text \<open>
  C7. The value written to \<open>poster_path\<close> is a function of the raw value of the field
  alone (\<open>posterPath\<close> is a total function, with one result for each argument): for a
  non-empty string it is the fixed prefix \<open>https://image.tmdb.org/t/p/w500\<close> followed
  by that string; for the empty string, for \<open>null\<close> and for an absent field it is the
  placeholder \<open>./No-Poster.png\<close>. The transformed record has that value as its
  \<open>poster_path\<close>.
\<close>

theorem posterPath_resolution:
  "(fragment \<noteq> [] \<longrightarrow>
      posterPath (Some (JStr fragment)) = ''https://image.tmdb.org/t/p/w500'' @ fragment)
   \<and> posterPath (Some (JStr [])) = ''./No-Poster.png''
   \<and> posterPath None = ''./No-Poster.png''
   \<and> posterPath (Some JNull) = ''./No-Poster.png''
   \<and> map_of (transformMovie movie) ''poster_path''
        = Some (JStr (posterPath (map_of movie ''poster_path'')))"
  by (simp add: posterPath_def transformMovie_def update_conv')

text \<open>The fragment \<open>/abc.jpg\<close>, and the three sample records.\<close>

theorem posterPath_resolution_witness:
  "''/abc.jpg'' \<noteq> []
   \<and> posterPath (Some (JStr ''/abc.jpg'')) = ''https://image.tmdb.org/t/p/w500/abc.jpg''
   \<and> map_of (transformMovie sampleMovie) ''poster_path''
       = Some (JStr ''https://image.tmdb.org/t/p/w500/abc.jpg'')
   \<and> map_of (transformMovie noPosterMovie) ''poster_path'' = Some (JStr ''./No-Poster.png'')
   \<and> map_of (transformMovie bareMovie) ''poster_path'' = Some (JStr ''./No-Poster.png'')"
proof -
  have f: "''/abc.jpg'' \<noteq> []" by simp
  have m: "map_of sampleMovie ''poster_path'' = Some (JStr ''/abc.jpg'')"
    "map_of noPosterMovie ''poster_path'' = Some JNull"
    "map_of bareMovie ''poster_path'' = None"
    by (simp_all add: sampleMovie_def noPosterMovie_def bareMovie_def)
  show ?thesis
    using f m posterPath_resolution [of "''/abc.jpg''" sampleMovie]
      posterPath_resolution [of "''/abc.jpg''" noPosterMovie]
      posterPath_resolution [of "''/abc.jpg''" bareMovie]
    by simp
qed

text \<open>
  C9. The transformation of a raw record changes the field \<open>poster_path\<close> only: every
  other field reads as in the raw record, and the fields other than \<open>poster_path\<close>
  are the same, with the same values and in the same order, before and after.
\<close>

theorem transformMovie_frame:
  "(k \<noteq> ''poster_path'' \<longrightarrow> map_of (transformMovie movie) k = map_of movie k)
   \<and> filter (\<lambda>field. fst field \<noteq> ''poster_path'') (transformMovie movie)
       = filter (\<lambda>field. fst field \<noteq> ''poster_path'') movie"
  by (simp add: transformMovie_def update_conv' filter_update_other)

text \<open>The title and the id of the sample record.\<close>

theorem transformMovie_frame_witness:
  "''title'' \<noteq> ''poster_path''
   \<and> map_of (transformMovie sampleMovie) ''title'' = Some (JStr ''The Matrix'')
   \<and> ''id'' \<noteq> ''poster_path''
   \<and> map_of (transformMovie sampleMovie) ''id'' = Some (JNum ''603'')
   \<and> transformMovie sampleMovie
       = [(''id'', JNum ''603''),
          (''poster_path'', JStr ''https://image.tmdb.org/t/p/w500/abc.jpg''),
          (''title'', JStr ''The Matrix'')]
   \<and> transformMovie bareMovie
       = [(''id'', JNum ''605''), (''title'', JStr ''Bare''),
          (''poster_path'', JStr ''./No-Poster.png'')]"
proof -
  have n: "''title'' \<noteq> ''poster_path''" "''id'' \<noteq> ''poster_path''" by simp_all
  have m: "map_of sampleMovie ''title'' = Some (JStr ''The Matrix'')"
    "map_of sampleMovie ''id'' = Some (JNum ''603'')"
    by (simp_all add: sampleMovie_def)
  have t: "transformMovie sampleMovie
       = [(''id'', JNum ''603''),
          (''poster_path'', JStr ''https://image.tmdb.org/t/p/w500/abc.jpg''),
          (''title'', JStr ''The Matrix'')]"
    "transformMovie bareMovie
       = [(''id'', JNum ''605''), (''title'', JStr ''Bare''),
          (''poster_path'', JStr ''./No-Poster.png'')]"
    by (simp_all add: transformMovie_def sampleMovie_def bareMovie_def posterPath_def)
  show ?thesis
    using n m t transformMovie_frame [of "''title''" sampleMovie]
      transformMovie_frame [of "''id''" sampleMovie]
    by simp
qed

end
